theory Spec2Isabelle
  imports Complex_Main "HOL-Library.Sublist"
begin

section \<open>Python values\<close>

text \<open>
  The service answers in JSON and \<open>response.json()\<close> turns the answer into Python
  values. A Place Record is a \<open>Dict\<close> whose values are loosely typed, so the values are
  kept as a datatype of all JSON shapes. A dictionary is an association list in insertion
  order; its keys are meant to be distinct, and a lookup takes the first binding.
  Numbers are carried as reals: this program never computes with the numbers of a record.
\<close>

datatype json =
    JNull
  | JBool bool
  | JNum real
  | JStr string
  | JList "json list"
  | JDict "(string \<times> json) list"

type_synonym dict = "(string \<times> json) list"

text \<open>\<open>d.get(key, default)\<close>\<close>

definition get :: "dict \<Rightarrow> string \<Rightarrow> json \<Rightarrow> json" where
  "get d key dflt = (case map_of d key of Some v \<Rightarrow> v | None \<Rightarrow> dflt)"

text \<open>Exceptions that the modelled code can raise; \<open>SystemExit\<close> carries the exit status.\<close>

datatype error =
    SystemExit nat
  | KeyError
  | AttributeError
  | TypeError
  | ValueError
  | UnboundLocalError

section \<open>String helpers of the Python library\<close>

text \<open>\<open>sep.join(xs)\<close>\<close>

fun join :: "string \<Rightarrow> string list \<Rightarrow> string" where
  "join sep [] = []"
| "join sep [x] = x"
| "join sep (x # y # ys) = x @ sep @ join sep (y # ys)"

text \<open>\<open>s.split(c)\<close> for a separator of one character: the result is never empty.\<close>

fun split :: "char \<Rightarrow> string \<Rightarrow> string list" where
  "split c [] = [[]]"
| "split c (x # xs) =
     (if x = c then [] # split c xs
      else (case split c xs of w # ws \<Rightarrow> (x # w) # ws | [] \<Rightarrow> [[x]]))"

text \<open>
  \<open>s.replace(old, new)\<close>: every occurrence of \<open>old\<close>, found from left to right without
  overlap, becomes \<open>new\<close>. With an empty \<open>old\<close> Python puts \<open>new\<close> before every
  character and at the end.
\<close>

fun replace_from :: "string \<Rightarrow> string \<Rightarrow> string \<Rightarrow> string" where
  "replace_from old new [] = []"
| "replace_from old new (c # cs) =
     (if prefix old (c # cs)
      then new @ replace_from old new (drop (length old - 1) cs)
      else c # replace_from old new cs)"

definition replace :: "string \<Rightarrow> string \<Rightarrow> string \<Rightarrow> string" where
  "replace old new s =
     (if old = [] then new @ concat (map (\<lambda>c. c # new) s) else replace_from old new s)"

section \<open>Price table\<close>

text \<open>
  The prices are Python floats in the source. They are modelled by the decimal numbers the
  literals denote, and sums are exact; the rounding of binary floating point is left out.
\<close>

definition FIELD_COSTS :: "(string \<times> real) list" where
  "FIELD_COSTS =
     [(''id'', 0),
      (''displayName'', 0),
      (''formattedAddress'', 0),
      (''location'', 0),
      (''types'', 0),
      (''primaryType'', 0),
      (''primaryTypeDisplayName'', 0),
      (''shortFormattedAddress'', 0),
      (''googleMapsUri'', 0),
      (''nationalPhoneNumber'', 5 / 1000),
      (''internationalPhoneNumber'', 5 / 1000),
      (''rating'', 5 / 1000),
      (''userRatingCount'', 5 / 1000),
      (''businessStatus'', 5 / 1000),
      (''priceLevel'', 5 / 1000),
      (''websiteUri'', 5 / 1000),
      (''regularOpeningHours'', 5 / 1000),
      (''utcOffsetMinutes'', 5 / 1000),
      (''currentOpeningHours'', 7 / 1000),
      (''currentSecondaryOpeningHours'', 7 / 1000),
      (''regularSecondaryOpeningHours'', 7 / 1000),
      (''editorialSummary'', 7 / 1000),
      (''reviews'', 7 / 1000),
      (''photos'', 7 / 1000)]"

definition BASE_NEARBY_SEARCH_COST :: real where
  "BASE_NEARBY_SEARCH_COST = 17 / 1000"

section \<open>The searcher object\<close>

record searcher =
  api_key :: string
  data_level :: string
  debug :: bool
  base_url :: string
  headers :: "(string \<times> string) list"

text \<open>The \<open>fields\<close> list of \<open>_get_field_mask\<close>, chosen by the data level.\<close>

definition mask_fields :: "string \<Rightarrow> string list" where
  "mask_fields level =
     (if level = ''id_only'' then [''places.id'', ''places.displayName'']
      else if level = ''basic'' then
        [''places.id'', ''places.displayName'', ''places.formattedAddress'',
         ''places.location'', ''places.types'', ''places.primaryType'',
         ''places.googleMapsUri'']
      else if level = ''advanced'' then
        [''places.id'', ''places.displayName'', ''places.formattedAddress'',
         ''places.location'', ''places.types'', ''places.primaryType'',
         ''places.googleMapsUri'', ''places.rating'', ''places.userRatingCount'',
         ''places.nationalPhoneNumber'', ''places.internationalPhoneNumber'',
         ''places.websiteUri'', ''places.businessStatus'']
      else [''places.id'', ''places.displayName''])"

definition get_field_mask :: "string \<Rightarrow> string" where
  "get_field_mask level = join '','' (mask_fields level)"

text \<open>\<open>PlacesSearcher.__init__\<close>\<close>

definition PlacesSearcher :: "string \<Rightarrow> string \<Rightarrow> bool \<Rightarrow> searcher" where
  "PlacesSearcher key level dbg =
     \<lparr>api_key = key, data_level = level, debug = dbg,
      base_url = ''https://places.googleapis.com/v1/places:searchNearby'',
      headers = [(''Content-Type'', ''application/json''),
                 (''X-Goog-Api-Key'', key),
                 (''X-Goog-FieldMask'', get_field_mask level)]\<rparr>"

text \<open>The body of the \<open>for field in fields\<close> loop of \<open>calculate_request_cost\<close>.\<close>

definition add_field_cost :: "real \<Rightarrow> string \<Rightarrow> real" where
  "add_field_cost cost field =
     (case map_of FIELD_COSTS field of Some c \<Rightarrow> cost + c | None \<Rightarrow> cost)"

definition calculate_request_cost :: "searcher \<Rightarrow> error + real" where
  "calculate_request_cost self =
     (case map_of (headers self) ''X-Goog-FieldMask'' of
        None \<Rightarrow> Inl KeyError
      | Some field_mask \<Rightarrow>
          Inr (foldl add_field_cost BASE_NEARBY_SEARCH_COST
                 (map (replace ''places.'' '''') (split (CHR '','') field_mask))))"

section \<open>The remote service\<close>

text \<open>
  The arguments of \<open>search_nearby\<close>. Coordinates and radius are floats that the
  program only passes on.
\<close>

record query =
  latitude :: real
  longitude :: real
  radius :: real
  keyword :: "string option"
  include_types :: "string list option"

text \<open>The JSON payload of one request; an optional field is a key that may be absent.\<close>

record payload =
  center_latitude :: real
  center_longitude :: real
  circle_radius :: real
  maxResultCount :: nat
  includedTypes :: "string list option"
  rankPreference :: string
  pageToken :: "string option"

text \<open>What \<open>requests.post\<close> is called with.\<close>

record request =
  url :: string
  request_headers :: "(string \<times> string) list"
  json_body :: payload
  timeout :: nat

text \<open>
  The parsed answer of the service: an ordered record list and an optional continuation
  token, either key possibly absent.
\<close>

record result =
  result_places :: "dict list option"
  result_nextPageToken :: "string option"

text \<open>
  The failures that \<open>requests\<close> reports as a \<open>RequestException\<close>: no connection, a
  status that \<open>raise_for_status\<close> rejects, no answer within the timeout.
\<close>

datatype failure = ConnectionError | HTTPError nat | Timeout

datatype response = Failed failure | Ok result

text \<open>
  The service answers the \<open>i\<close>-th request of a run (counted from 0) as a function of
  the request. One exchange is a request together with its answer.
\<close>

type_synonym service = "nat \<Rightarrow> request \<Rightarrow> response"

type_synonym exchange = "request \<times> response"

section \<open>The pagination loop\<close>

text \<open>Python's truth value of an optional string (\<open>next_page_token\<close>, the API key, the
  category argument) and of \<open>include_types\<close>.\<close>

definition truthy :: "string option \<Rightarrow> bool" where
  "truthy t = (case t of None \<Rightarrow> False | Some s \<Rightarrow> s \<noteq> [])"

definition truthy_types :: "string list option \<Rightarrow> bool" where
  "truthy_types t = (case t of None \<Rightarrow> False | Some ts \<Rightarrow> ts \<noteq> [])"

text \<open>The payload built at the top of every iteration, and the request that carries it.\<close>

definition build_payload :: "query \<Rightarrow> string option \<Rightarrow> payload" where
  "build_payload q next_page_token =
     \<lparr>center_latitude = latitude q,
      center_longitude = longitude q,
      circle_radius = radius q,
      maxResultCount = 20,
      includedTypes = (if truthy_types (include_types q) then include_types q else None),
      rankPreference = ''DISTANCE'',
      pageToken = (if truthy next_page_token then next_page_token else None)\<rparr>"

definition build_request :: "searcher \<Rightarrow> query \<Rightarrow> string option \<Rightarrow> request" where
  "build_request self q next_page_token =
     \<lparr>url = base_url self,
      request_headers = headers self,
      json_body = build_payload q next_page_token,
      timeout = 30\<rparr>"

text \<open>
  The \<open>while True\<close> loop of \<open>search_nearby\<close>. Its variables are \<open>all_places\<close>,
  \<open>next_page_token\<close> and \<open>request_count\<close>; the list of exchanges so far is kept
  beside them to speak about the requests of a run. A failure of the fetch reaches the
  \<open>except\<close> branch, which calls \<open>sys.exit(1)\<close>. A run that never stops is \<open>None\<close>.
  The lines printed by the loop are left out.
\<close>

partial_function (option) search_loop ::
  "service \<Rightarrow> searcher \<Rightarrow> query \<Rightarrow> dict list \<Rightarrow> string option \<Rightarrow> nat \<Rightarrow> exchange list
     \<Rightarrow> ((error + dict list \<times> nat) \<times> exchange list) option"
where
  "search_loop srv self q all_places next_page_token request_count trace =
     (let req = build_request self q next_page_token;
          resp = srv (length trace) req;
          trace' = trace @ [(req, resp)]
      in case resp of
           Failed e \<Rightarrow> Some (Inl (SystemExit 1), trace')
         | Ok res \<Rightarrow>
             (let request_count' = request_count + 1;
                  places = (case result_places res of Some ps \<Rightarrow> ps | None \<Rightarrow> []);
                  all_places' = all_places @ places;
                  next_page_token' = result_nextPageToken res
              in if \<not> truthy next_page_token'
                 then Some (Inr (all_places', request_count'), trace')
                 else search_loop srv self q all_places' next_page_token' request_count' trace'))"

definition search_nearby ::
  "service \<Rightarrow> searcher \<Rightarrow> query \<Rightarrow> ((error + dict list \<times> nat) \<times> exchange list) option" where
  "search_nearby srv self q = search_loop srv self q [] None 0 []"

section \<open>The exporter\<close>

text \<open>
  The file system maps a path to the rows handed to \<open>csv.writer\<close>, the header first; a
  row is the list of its cells, as Python values. How the \<open>csv\<close> module renders a cell
  as text is a fixed function of the cell's value and is not modelled. Opening the output
  file is taken to succeed. \<open>stdout\<close> holds the strings printed by the exporter, one
  per call of \<open>print\<close>.
\<close>

record world =
  files :: "string \<rightharpoonup> json list list"
  stdout :: "string list"

text \<open>The columns, chosen by the data level.\<close>

definition fieldnames :: "string \<Rightarrow> string list" where
  "fieldnames level =
     (if level = ''id_only'' then [''place_id'', ''google_maps_url'']
      else if level = ''basic'' then
        [''place_id'', ''name'', ''address'', ''latitude'', ''longitude'', ''types'',
         ''primary_type'', ''google_maps_url'']
      else if level = ''advanced'' then
        [''place_id'', ''name'', ''address'', ''latitude'', ''longitude'', ''types'',
         ''primary_type'', ''google_maps_url'', ''rating'', ''user_ratings_total'',
         ''phone_national'', ''phone_international'', ''website'', ''business_status'']
      else [''place_id''])"

text \<open>
  A value inside an f-string: a string stands for itself, any other value is rendered by
  Python's builtin \<open>str\<close>, which is a parameter \<open>py_str\<close> of the model.
\<close>

definition format_value :: "(json \<Rightarrow> string) \<Rightarrow> json \<Rightarrow> string" where
  "format_value py_str v = (case v of JStr s \<Rightarrow> s | _ \<Rightarrow> py_str v)"

definition maps_url_prefix :: string where
  "maps_url_prefix = ''https://www.google.com/maps/place/?q=place_id:''"

text \<open>
  \<open>place.get(outer, {}).get(inner, "")\<close>: of the JSON values only a dictionary has a
  method \<open>get\<close>.
\<close>

definition get_nested :: "dict \<Rightarrow> string \<Rightarrow> string \<Rightarrow> error + json" where
  "get_nested place outer inner =
     (case get place outer (JDict []) of
        JDict d \<Rightarrow> Inr (get d inner (JStr []))
      | _ \<Rightarrow> Inl AttributeError)"

text \<open>
  \<open>", ".join(v)\<close>: a list must hold strings only; a string is joined character by
  character and a dictionary key by key; any other value is not iterable.
\<close>

fun strings_of :: "json list \<Rightarrow> string list option" where
  "strings_of [] = Some []"
| "strings_of (JStr s # vs) = map_option ((#) s) (strings_of vs)"
| "strings_of (_ # vs) = None"

definition join_value :: "json \<Rightarrow> error + json" where
  "join_value v =
     (case v of
        JList vs \<Rightarrow>
          (case strings_of vs of Some ss \<Rightarrow> Inr (JStr (join '', '' ss)) | None \<Rightarrow> Inl TypeError)
      | JStr s \<Rightarrow> Inr (JStr (join '', '' (map (\<lambda>c. [c]) s)))
      | JDict d \<Rightarrow> Inr (JStr (join '', '' (map fst d)))
      | _ \<Rightarrow> Inl TypeError)"

text \<open>The three dictionary displays that build \<open>row\<close>; the entries are evaluated in order.\<close>

definition id_only_row :: "(json \<Rightarrow> string) \<Rightarrow> dict \<Rightarrow> dict" where
  "id_only_row py_str place =
     (let place_id = get place ''id'' (JStr [])
      in [(''place_id'', place_id),
          (''google_maps_url'', JStr (maps_url_prefix @ format_value py_str place_id))])"

definition basic_row :: "dict \<Rightarrow> error + dict" where
  "basic_row place =
     (case get_nested place ''displayName'' ''text'' of Inl e \<Rightarrow> Inl e | Inr name \<Rightarrow>
      case get_nested place ''location'' ''latitude'' of Inl e \<Rightarrow> Inl e | Inr lat \<Rightarrow>
      case get_nested place ''location'' ''longitude'' of Inl e \<Rightarrow> Inl e | Inr lng \<Rightarrow>
      case join_value (get place ''types'' (JList [])) of Inl e \<Rightarrow> Inl e | Inr types \<Rightarrow>
        Inr [(''place_id'', get place ''id'' (JStr [])),
             (''name'', name),
             (''address'', get place ''formattedAddress'' (JStr [])),
             (''latitude'', lat),
             (''longitude'', lng),
             (''types'', types),
             (''primary_type'', get place ''primaryType'' (JStr [])),
             (''google_maps_url'', get place ''googleMapsUri'' (JStr []))])"

definition advanced_row :: "dict \<Rightarrow> error + dict" where
  "advanced_row place =
     (case get_nested place ''displayName'' ''text'' of Inl e \<Rightarrow> Inl e | Inr name \<Rightarrow>
      case get_nested place ''location'' ''latitude'' of Inl e \<Rightarrow> Inl e | Inr lat \<Rightarrow>
      case get_nested place ''location'' ''longitude'' of Inl e \<Rightarrow> Inl e | Inr lng \<Rightarrow>
      case join_value (get place ''types'' (JList [])) of Inl e \<Rightarrow> Inl e | Inr types \<Rightarrow>
        Inr [(''place_id'', get place ''id'' (JStr [])),
             (''name'', name),
             (''address'', get place ''formattedAddress'' (JStr [])),
             (''latitude'', lat),
             (''longitude'', lng),
             (''types'', types),
             (''primary_type'', get place ''primaryType'' (JStr [])),
             (''google_maps_url'', get place ''googleMapsUri'' (JStr [])),
             (''rating'', get place ''rating'' (JStr [])),
             (''user_ratings_total'', get place ''userRatingCount'' (JStr [])),
             (''phone_national'', get place ''nationalPhoneNumber'' (JStr [])),
             (''phone_international'', get place ''internationalPhoneNumber'' (JStr [])),
             (''website'', get place ''websiteUri'' (JStr [])),
             (''business_status'', get place ''businessStatus'' (JStr []))])"

text \<open>
  The \<open>if\<close>/\<open>elif\<close> chain inside the \<open>for\<close> loop. It has no \<open>else\<close>: at any other
  level the variable \<open>row\<close> keeps what it held before, which is nothing (\<open>None\<close> here)
  until some iteration assigns it.
\<close>

definition assign_row ::
  "(json \<Rightarrow> string) \<Rightarrow> string \<Rightarrow> dict \<Rightarrow> dict option \<Rightarrow> error + dict option" where
  "assign_row py_str level place row =
     (if level = ''id_only'' then Inr (Some (id_only_row py_str place))
      else if level = ''basic'' then
        (case basic_row place of Inl e \<Rightarrow> Inl e | Inr r \<Rightarrow> Inr (Some r))
      else if level = ''advanced'' then
        (case advanced_row place of Inl e \<Rightarrow> Inl e | Inr r \<Rightarrow> Inr (Some r))
      else Inr row)"

text \<open>
  \<open>csv.DictWriter.writerow\<close> with the default \<open>extrasaction\<close> and \<open>restval\<close>: a key that
  is no column raises \<open>ValueError\<close>; the cells follow the order of the columns, an absent
  key giving the empty string.
\<close>

definition dict_to_list :: "string list \<Rightarrow> dict \<Rightarrow> error + json list" where
  "dict_to_list fns rowdict =
     (if list_all (\<lambda>k. List.member fns k) (map fst rowdict)
      then Inr (map (\<lambda>k. get rowdict k (JStr [])) fns)
      else Inl ValueError)"

text \<open>
  The \<open>for place in places\<close> loop: \<open>row\<close> is the variable of that name (\<open>None\<close> while
  unbound), \<open>written\<close> the rows in the file so far. Reading an unbound \<open>row\<close> raises
  \<open>UnboundLocalError\<close>. An exception leaves the loop with the file as written up to then.
\<close>

fun write_rows ::
  "(json \<Rightarrow> string) \<Rightarrow> string \<Rightarrow> string list \<Rightarrow> dict list \<Rightarrow> dict option \<Rightarrow> json list list
     \<Rightarrow> error option \<times> json list list" where
  "write_rows py_str level fns [] row written = (None, written)"
| "write_rows py_str level fns (place # rest) row written =
     (case assign_row py_str level place row of
        Inl e \<Rightarrow> (Some e, written)
      | Inr None \<Rightarrow> (Some UnboundLocalError, written)
      | Inr (Some r) \<Rightarrow>
          (case dict_to_list fns r of
             Inl e \<Rightarrow> (Some e, written)
           | Inr cells \<Rightarrow> write_rows py_str level fns rest (Some r) (written @ [cells])))"

text \<open>\<open>str(n)\<close> for a natural number, used by \<open>len(places)\<close> inside an f-string.\<close>

fun str_nat :: "nat \<Rightarrow> string" where
  "str_nat n =
     (if n < 10 then [''0123456789'' ! n]
      else str_nat (n div 10) @ [''0123456789'' ! (n mod 10)])"

declare str_nat.simps [simp del]

text \<open>
  \<open>save_to_csv\<close>: the result is the exception raised, if any, and the world afterwards.
  Opening the file with mode \<open>'w'\<close> replaces what the path held; the header is written
  before the first row.
\<close>

definition save_to_csv ::
  "(json \<Rightarrow> string) \<Rightarrow> searcher \<Rightarrow> dict list \<Rightarrow> string \<Rightarrow> world \<Rightarrow> error option \<times> world" where
  "save_to_csv py_str self places output_file w =
     (if places = [] then
        (None, w\<lparr>stdout := stdout w @ [''No places found in the results'']\<rparr>)
      else
        (let fns = fieldnames (data_level self);
             (raised, written) =
                write_rows py_str (data_level self) fns places None [map JStr fns];
             w' = w\<lparr>files := (files w)(output_file \<mapsto> written)\<rparr>
         in case raised of
              Some e \<Rightarrow> (Some e, w')
            | None \<Rightarrow>
                (None, w'\<lparr>stdout := stdout w' @
                   [CHR 0x0A # ''Results saved to: '' @ output_file,
                    ''Total places found: '' @ str_nat (length places)]\<rparr>)))"

section \<open>The main function\<close>

text \<open>The parsed command line.\<close>

record args =
  arg_lat :: real
  arg_lng :: real
  arg_radius :: real
  arg_category :: "string option"
  arg_output :: "string option"
  arg_data_level :: string
  arg_debug :: bool

text \<open>The numbers of the run summary.\<close>

record summary =
  pages_fetched :: nat
  places_found :: nat
  cost_per_request :: real
  total_cost :: real

text \<open>\<open>s.strip()\<close> on characters below 256.\<close>

definition is_space :: "char \<Rightarrow> bool" where
  "is_space c =
     List.member [9, 10, 11, 12, 13, 28, 29, 30, 31, 32, 133, 160 :: nat] (of_char c)"

definition strip :: "string \<Rightarrow> string" where
  "strip s = rev (dropWhile is_space (rev (dropWhile is_space s)))"

text \<open>
  \<open>main\<close>, after \<open>parse_args\<close>: \<open>env_key\<close> is the value of the environment variable
  \<open>GOOGLE_MAPS_API_KEY\<close>, \<open>timestamp\<close> the formatted current time. The parser rejects a
  data level outside its \<open>choices\<close> with exit status 2. The banners and the summary that
  \<open>main\<close> prints are left out; the summary's numbers are the result. The three values
  that \<open>main\<close> computes from the arguments come first.
\<close>

definition parse_categories :: "string option \<Rightarrow> string list option" where
  "parse_categories category =
     (if truthy category then map_option (\<lambda>c. map strip (split (CHR '','') c)) category
      else None)"

definition query_of_args :: "args \<Rightarrow> query" where
  "query_of_args a =
     \<lparr>latitude = arg_lat a, longitude = arg_lng a, radius = arg_radius a,
      keyword = None, include_types = parse_categories (arg_category a)\<rparr>"

definition output_path :: "string \<Rightarrow> args \<Rightarrow> string" where
  "output_path timestamp a =
     (case arg_output a of None \<Rightarrow> ''places_'' @ timestamp @ ''.csv'' | Some path \<Rightarrow> path)"

definition main ::
  "(json \<Rightarrow> string) \<Rightarrow> service \<Rightarrow> string option \<Rightarrow> string \<Rightarrow> args \<Rightarrow> world
     \<Rightarrow> ((error + summary) \<times> world) option" where
  "main py_str srv env_key timestamp a w =
     (if \<not> List.member [''id_only'', ''basic'', ''advanced''] (arg_data_level a)
      then Some (Inl (SystemExit 2), w)
      else if \<not> truthy env_key then Some (Inl (SystemExit 1), w)
      else
        (let key = (case env_key of Some k \<Rightarrow> k | None \<Rightarrow> []);
             searcher = PlacesSearcher key (arg_data_level a) (arg_debug a)
         in case calculate_request_cost searcher of
              Inl e \<Rightarrow> Some (Inl e, w)
            | Inr cost \<Rightarrow>
                (case search_nearby srv searcher (query_of_args a) of
                   None \<Rightarrow> None
                 | Some (Inl e, trace) \<Rightarrow> Some (Inl e, w)
                 | Some (Inr (all_places, request_count), trace) \<Rightarrow>
                     (case save_to_csv py_str searcher all_places (output_path timestamp a) w of
                        (Some e, w') \<Rightarrow> Some (Inl e, w')
                      | (None, w') \<Rightarrow>
                          Some (Inr \<lparr>pages_fetched = request_count,
                                     places_found = length all_places,
                                     cost_per_request = cost,
                                     total_cost = cost * real request_count\<rparr>, w')))))"

text \<open>
  The exit status of the process: 0 after a normal return, the argument of \<open>sys.exit\<close>,
  and 1 for any other exception that nothing catches.
\<close>

definition exit_status :: "error + 'a \<Rightarrow> nat" where
  "exit_status r = (case r of Inr _ \<Rightarrow> 0 | Inl (SystemExit n) \<Rightarrow> n | Inl _ \<Rightarrow> 1)"

section \<open>Notions used to state the properties\<close>

subsection \<open>Prices\<close>

text \<open>
  The name of a requested field is its mask entry without the leading \<open>places.\<close>; the
  price of a field is its entry in the table, and nothing for a field the table lacks.
  The second list is the group of the table headed "Advanced fields".
\<close>

definition field_name :: "string \<Rightarrow> string" where
  "field_name f = drop (length ''places.'') f"

definition field_price :: "string \<Rightarrow> real" where
  "field_price f = (case map_of FIELD_COSTS f of Some c \<Rightarrow> c | None \<Rightarrow> 0)"


subsection \<open>Runs of the pagination loop\<close>

text \<open>The records of one answer: \<open>result.get("places", [])\<close>.\<close>

definition page_places :: "result \<Rightarrow> dict list" where
  "page_places res = (case result_places res of Some ps \<Rightarrow> ps | None \<Rightarrow> [])"

text \<open>
  \<open>served srv self q i tok pages\<close>: from its \<open>i\<close>-th request on, which carries the
  token \<open>tok\<close>, the run receives the answers \<open>pages\<close> one after the other, each
  request being built from the token of the answer before it.
\<close>

fun served :: "service \<Rightarrow> searcher \<Rightarrow> query \<Rightarrow> nat \<Rightarrow> string option \<Rightarrow> result list \<Rightarrow> bool" where
  "served srv self q i tok [] = True"
| "served srv self q i tok (p # ps) =
     (srv i (build_request self q tok) = Ok p
      \<and> served srv self q (Suc i) (result_nextPageToken p) ps)"

text \<open>The token in hand after the answers \<open>pages\<close>.\<close>

definition token_after :: "result list \<Rightarrow> string option" where
  "token_after pages = (if pages = [] then None else result_nextPageToken (last pages))"

definition has_token :: "result \<Rightarrow> bool" where
  "has_token res = truthy (result_nextPageToken res)"

text \<open>The exchanges of a run that sends its first request with \<open>tok\<close> and receives \<open>pages\<close>.\<close>

fun exchanges_of :: "searcher \<Rightarrow> query \<Rightarrow> string option \<Rightarrow> result list \<Rightarrow> exchange list" where
  "exchanges_of self q tok [] = []"
| "exchanges_of self q tok (p # ps) =
     (build_request self q tok, Ok p) # exchanges_of self q (result_nextPageToken p) ps"

text \<open>The number of exchanges of a run whose answer was received and parsed.\<close>

definition is_ok :: "response \<Rightarrow> bool" where
  "is_ok resp = (case resp of Ok _ \<Rightarrow> True | Failed _ \<Rightarrow> False)"

definition count_ok :: "exchange list \<Rightarrow> nat" where
  "count_ok trace = length (filter (\<lambda>x. is_ok (snd x)) trace)"

subsection \<open>Rows and columns of the exported file\<close>

definition recognized :: "string \<Rightarrow> bool" where
  "recognized level = List.member [''id_only'', ''basic'', ''advanced''] level"

text \<open>The cell of a row under a column name.\<close>

definition column :: "string list \<Rightarrow> json list \<Rightarrow> string \<Rightarrow> json option" where
  "column fns cells name = map_of (zip fns cells) name"







subsection \<open>What one record contributes to the file\<close>

text \<open>
  The cells that one pass of the \<open>for\<close> loop hands to the writer for a record, or the
  exception of that pass, when no earlier pass has bound \<open>row\<close>.
\<close>

definition row_cells :: "(json \<Rightarrow> string) \<Rightarrow> string \<Rightarrow> dict \<Rightarrow> error + json list" where
  "row_cells py_str level place =
     (case assign_row py_str level place None of
        Inl e \<Rightarrow> Inl e
      | Inr None \<Rightarrow> Inl UnboundLocalError
      | Inr (Some r) \<Rightarrow> dict_to_list (fieldnames level) r)"


text \<open>
  The map link of a record as the rows have it: composed from the identifier at
  \<open>id_only\<close>, the record's own link (or the empty string) at the other levels.
\<close>

definition map_link :: "(json \<Rightarrow> string) \<Rightarrow> string \<Rightarrow> dict \<Rightarrow> json" where
  "map_link py_str level place =
     (if level = ''id_only''
      then JStr (maps_url_prefix @ format_value py_str (get place ''id'' (JStr [])))
      else get place ''googleMapsUri'' (JStr []))"

text \<open>The lines printed after a completed export.\<close>

definition saved_notice :: "string \<Rightarrow> nat \<Rightarrow> string list" where
  "saved_notice path n =
     [CHR 0x0A # ''Results saved to: '' @ path, ''Total places found: '' @ str_nat n]"

subsection \<open>Sample records\<close>

text \<open>
  A record as the service sends it at the \<open>basic\<close> level; a record with an identifier
  and nothing else; and a record whose display name is \<open>null\<close>.
\<close>

definition sample_place_full :: dict where
  "sample_place_full =
     [(''id'', JStr ''abc''),
      (''displayName'', JDict [(''text'', JStr ''Cafe Uno''), (''languageCode'', JStr ''en'')]),
      (''formattedAddress'', JStr ''1 Main St''),
      (''location'', JDict [(''latitude'', JNum 40.7), (''longitude'', JNum (- 74))]),
      (''types'', JList [JStr ''cafe'', JStr ''food'']),
      (''primaryType'', JStr ''cafe''),
      (''googleMapsUri'', JStr ''https://maps.google.com/?cid=1'')]"

definition sample_place_bare :: dict where
  "sample_place_bare = [(''id'', JStr ''abc'')]"




subsection \<open>A sample run\<close>

text \<open>
  Two pages, the first with a continuation token; a service that serves them to the
  requests of the loop, and one that serves the first and fails on the second request.
\<close>

definition sample_page1 :: result where
  "sample_page1 =
     \<lparr>result_places = Some [[(''id'', JStr ''p1'')], [(''id'', JStr ''p2'')]],
      result_nextPageToken = Some ''t1''\<rparr>"

definition sample_page2 :: result where
  "sample_page2 =
     \<lparr>result_places = Some [[(''id'', JStr ''p3'')]], result_nextPageToken = None\<rparr>"

definition sample_service :: service where
  "sample_service i req =
     (if i = 0 then Ok sample_page1
      else if i = 1 \<and> pageToken (json_body req) = Some ''t1'' then Ok sample_page2
      else Failed Timeout)"

definition failing_service :: service where
  "failing_service i req = (if i = 0 then Ok sample_page1 else Failed (HTTPError 500))"

definition sample_args :: args where
  "sample_args =
     \<lparr>arg_lat = 40.7128, arg_lng = - 74.006, arg_radius = 500,
      arg_category = Some ''cafe'', arg_output = Some ''out.csv'',
      arg_data_level = ''id_only'', arg_debug = False\<rparr>"

definition empty_world :: world where
  "empty_world = \<lparr>files = Map.empty, stdout = []\<rparr>"

section \<open>The cost estimate\<close>

lemma mask_fields_cases:
  "mask_fields level = mask_fields ''id_only'' \<or> mask_fields level = mask_fields ''basic''
     \<or> mask_fields level = mask_fields ''advanced''"
  by (simp add: mask_fields_def)

lemma cost_of_PlacesSearcher:
  "calculate_request_cost (PlacesSearcher key level dbg) =
     Inr (foldl add_field_cost BASE_NEARBY_SEARCH_COST
            (map (replace ''places.'' []) (split (CHR '','') (join '','' (mask_fields level)))))"
  by (simp add: calculate_request_cost_def PlacesSearcher_def get_field_mask_def)

text \<open>Splitting the joined mask and dropping the prefix gives back the field names.\<close>

lemma parse_id_only:
  "map (replace ''places.'' []) (split (CHR '','') (join '','' (mask_fields ''id_only'')))
     = map field_name (mask_fields ''id_only'')"
  by (simp add: mask_fields_def replace_def field_name_def)

lemma parse_basic:
  "map (replace ''places.'' []) (split (CHR '','') (join '','' (mask_fields ''basic'')))
     = map field_name (mask_fields ''basic'')"
  by (simp add: mask_fields_def replace_def field_name_def)

lemma parse_advanced:
  "map (replace ''places.'' []) (split (CHR '','') (join '','' (mask_fields ''advanced'')))
     = map field_name (mask_fields ''advanced'')"
  by (simp add: mask_fields_def replace_def field_name_def)

lemma parse_mask:
  "map (replace ''places.'' []) (split (CHR '','') (join '','' (mask_fields level)))
     = map field_name (mask_fields level)"
  using mask_fields_cases [of level] parse_id_only parse_basic parse_advanced by metis

lemma add_field_cost_price: "add_field_cost cost f = cost + field_price f"
  by (simp add: add_field_cost_def field_price_def split: option.split)

lemma foldl_add_field_cost:
  "foldl add_field_cost cost fs = cost + sum_list (map field_price fs)"
  by (induction fs arbitrary: cost) (simp_all add: add_field_cost_price)

lemma request_cost_sum:
  "calculate_request_cost (PlacesSearcher key level dbg) =
     Inr (BASE_NEARBY_SEARCH_COST
          + sum_list (map (\<lambda>f. field_price (field_name f)) (mask_fields level)))"
  by (simp add: cost_of_PlacesSearcher parse_mask foldl_add_field_cost comp_def)


section \<open>The pagination loop: runs that return\<close>

lemma search_loop_failed:
  assumes "srv (length tr) (build_request self q tok) = Failed f"
  shows "search_loop srv self q acc tok n tr =
           Some (Inl (SystemExit 1), tr @ [(build_request self q tok, Failed f)])"
  by (subst search_loop.simps) (simp add: assms Let_def)

lemma search_loop_last:
  assumes "srv (length tr) (build_request self q tok) = Ok p" and "\<not> has_token p"
  shows "search_loop srv self q acc tok n tr =
           Some (Inr (acc @ page_places p, Suc n), tr @ [(build_request self q tok, Ok p)])"
  using assms(2)
  by (subst search_loop.simps) (simp add: assms(1) Let_def has_token_def page_places_def)

lemma search_loop_more:
  assumes "srv (length tr) (build_request self q tok) = Ok p" and "has_token p"
  shows "search_loop srv self q acc tok n tr =
           search_loop srv self q (acc @ page_places p) (result_nextPageToken p) (Suc n)
             (tr @ [(build_request self q tok, Ok p)])"
  using assms(2)
  by (subst search_loop.simps) (simp add: assms(1) Let_def has_token_def page_places_def)

lemma length_exchanges_of [simp]: "length (exchanges_of self q tok ps) = length ps"
  by (induction ps arbitrary: tok) simp_all

lemma map_snd_exchanges_of [simp]: "map snd (exchanges_of self q tok ps) = map Ok ps"
  by (induction ps arbitrary: tok) simp_all

lemma token_after_Cons:
  "token_after (p # ps) = (if ps = [] then result_nextPageToken p else token_after ps)"
  by (simp add: token_after_def)

lemma search_loop_pages:
  assumes "served srv self q (length tr) tok ps" and "list_all has_token ps"
  shows "search_loop srv self q acc tok n tr =
           search_loop srv self q (acc @ concat (map page_places ps))
             (if ps = [] then tok else token_after ps) (n + length ps)
             (tr @ exchanges_of self q tok ps)"
  using assms
proof (induction ps arbitrary: acc tok n tr)
  case Nil
  then show ?case by simp
next
  case (Cons p ps)
  let ?tr = "tr @ [(build_request self q tok, Ok p)]"
  from Cons.prems have first: "srv (length tr) (build_request self q tok) = Ok p"
    and rest: "served srv self q (length ?tr) (result_nextPageToken p) ps"
    and tokens: "has_token p" "list_all has_token ps"
    by simp_all
  have "search_loop srv self q acc tok n tr =
          search_loop srv self q (acc @ page_places p) (result_nextPageToken p) (Suc n) ?tr"
    using first tokens(1) by (rule search_loop_more)
  also have "\<dots> = search_loop srv self q ((acc @ page_places p) @ concat (map page_places ps))
       (if ps = [] then result_nextPageToken p else token_after ps) (Suc n + length ps)
       (?tr @ exchanges_of self q (result_nextPageToken p) ps)"
    using rest tokens(2) by (rule Cons.IH)
  finally show ?case by (simp add: token_after_Cons)
qed

lemma served_append:
  "served srv self q i tok (ps @ [p]) \<longleftrightarrow>
     served srv self q i tok ps
     \<and> srv (i + length ps) (build_request self q (if ps = [] then tok else token_after ps)) = Ok p"
  by (induction ps arbitrary: i tok) (auto simp: token_after_Cons)

lemma exchanges_of_append:
  "exchanges_of self q tok (ps @ [p]) =
     exchanges_of self q tok ps
       @ [(build_request self q (if ps = [] then tok else token_after ps), Ok p)]"
  by (induction ps arbitrary: tok) (auto simp: token_after_Cons)

lemma pageToken_build_request:
  "pageToken (json_body (build_request self q tok)) = (if truthy tok then tok else None)"
  by (simp add: build_request_def build_payload_def)

lemma request_after:
  assumes "Suc i < length ps"
  shows "fst (exchanges_of self q tok ps ! Suc i) =
           build_request self q (result_nextPageToken (ps ! i))"
  using assms
proof (induction ps arbitrary: i tok)
  case Nil
  then show ?case by simp
next
  case (Cons p ps)
  show ?case
  proof (cases i)
    case 0
    with Cons.prems show ?thesis by (cases ps) simp_all
  next
    case (Suc j)
    with Cons.prems have "Suc j < length ps" by simp
    from Cons.IH [OF this] Suc show ?thesis by simp
  qed
qed

lemma search_nearby_pages:
  assumes "pages \<noteq> []"
    and "served srv self q 0 None pages"
    and "list_all has_token (butlast pages)"
    and "\<not> has_token (last pages)"
  shows "search_nearby srv self q =
           Some (Inr (concat (map page_places pages), length pages),
                 exchanges_of self q None pages)"
proof -
  from assms(1) obtain ps p where pages: "pages = ps @ [p]"
    by (metis append_butlast_last_id)
  with assms have served_ps: "served srv self q (length ([] :: exchange list)) None ps"
    and final: "srv (length ps) (build_request self q (if ps = [] then None else token_after ps)) = Ok p"
    and tokens: "list_all has_token ps" and stop: "\<not> has_token p"
    by (simp_all add: served_append)
  have "search_nearby srv self q =
          search_loop srv self q ([] @ concat (map page_places ps))
            (if ps = [] then None else token_after ps) (0 + length ps)
            ([] @ exchanges_of self q None ps)"
    unfolding search_nearby_def using served_ps tokens by (rule search_loop_pages)
  also have "\<dots> = Some (Inr (concat (map page_places ps) @ page_places p, Suc (length ps)),
       exchanges_of self q None ps
         @ [(build_request self q (if ps = [] then None else token_after ps), Ok p)])"
    using search_loop_last [where tr = "exchanges_of self q None ps", OF _ stop] final
    by simp
  finally show ?thesis by (simp add: pages exchanges_of_append)
qed

text \<open>
  Claim C1. Take a run in which the service answers the requests of the loop with the
  pages \<open>pages\<close>, all but the last carrying a continuation token (one that Python takes
  as true) and the last carrying none. Then \<open>search_nearby\<close> returns; it has issued as
  many requests as there are pages; the first request carries no token and every later
  one carries the token of the answer just before it; and the records returned are the
  pages' records appended in the order received.
\<close>

theorem pagination_follows_tokens:
  assumes "pages \<noteq> []"
    and "served srv self q 0 None pages"
    and "list_all has_token (butlast pages)"
    and "\<not> has_token (last pages)"
  shows "\<exists>trace.
           search_nearby srv self q =
             Some (Inr (concat (map page_places pages), length pages), trace)
           \<and> length trace = length pages
           \<and> map snd trace = map Ok pages
           \<and> pageToken (json_body (fst (trace ! 0))) = None
           \<and> (\<forall>i. Suc i < length pages \<longrightarrow>
                 pageToken (json_body (fst (trace ! Suc i))) = result_nextPageToken (pages ! i)
                 \<and> result_nextPageToken (pages ! i) \<noteq> None)"
proof -
  let ?trace = "exchanges_of self q None pages"
  have first: "pageToken (json_body (fst (?trace ! 0))) = None"
    using assms(1) by (cases pages) (simp_all add: pageToken_build_request truthy_def)
  have later: "pageToken (json_body (fst (?trace ! Suc i))) = result_nextPageToken (pages ! i)
      \<and> result_nextPageToken (pages ! i) \<noteq> None" if "Suc i < length pages" for i
  proof -
    from that have "i < length (butlast pages)" by simp
    with assms(3) have "has_token (butlast pages ! i)" by (simp add: list_all_length)
    with \<open>i < length (butlast pages)\<close> have "truthy (result_nextPageToken (pages ! i))"
      by (simp add: nth_butlast has_token_def)
    then show ?thesis
      by (auto simp add: request_after [OF that] pageToken_build_request truthy_def
          split: option.splits)
  qed
  from search_nearby_pages [OF assms] first later show ?thesis by auto
qed

section \<open>The request count\<close>

lemma search_loop_counts_aux:
  assumes "search_loop srv self q acc tok n tr = Some y"
  shows "\<forall>places m trace. y = (Inr (places, m), trace) \<longrightarrow>
           (\<exists>ext. trace = tr @ ext \<and> ext \<noteq> [] \<and> list_all (\<lambda>x. is_ok (snd x)) ext
                  \<and> m = n + length ext)"
  using assms
proof (induction srv self q acc tok n tr y rule: search_loop.raw_induct [rotated 1, consumes 1])
  case (1 loop srv self q acc tok n tr y)
  let ?req = "build_request self q tok"
  show ?case
  proof (cases "srv (length tr) ?req")
    case (Failed f)
    with "1.hyps" show ?thesis by (auto simp: Let_def)
  next
    case (Ok res)
    let ?tr = "tr @ [(?req, Ok res)]"
    show ?thesis
    proof (cases "truthy (result_nextPageToken res)")
      case False
      with Ok "1.hyps" show ?thesis by (auto simp: Let_def is_ok_def)
    next
      case True
      with Ok "1.hyps" have rec: "loop srv self q
          (acc @ (case result_places res of None \<Rightarrow> [] | Some ps \<Rightarrow> ps))
          (result_nextPageToken res) (Suc n) ?tr = Some y"
        by (simp add: Let_def)
      show ?thesis
      proof (intro allI impI)
        fix places m trace
        assume "y = (Inr (places, m), trace)"
        with "1.IH" [OF rec] obtain ext where
          "trace = ?tr @ ext" "list_all (\<lambda>x. is_ok (snd x)) ext" "m = Suc n + length ext"
          by auto
        then show "\<exists>ext. trace = tr @ ext \<and> ext \<noteq> [] \<and> list_all (\<lambda>x. is_ok (snd x)) ext
                  \<and> m = n + length ext"
          by (intro exI [of _ "(?req, Ok res) # ext"]) (simp add: is_ok_def)
      qed
    qed
  qed
qed

lemma search_nearby_counts:
  assumes "search_nearby srv self q = Some (Inr (places, m), trace)"
  shows "1 \<le> m \<and> m = count_ok trace \<and> m = length trace"
proof -
  from search_loop_counts_aux [OF assms [unfolded search_nearby_def]]
  obtain ext where "trace = [] @ ext" "ext \<noteq> []" "list_all (\<lambda>x. is_ok (snd x)) ext"
    "m = 0 + length ext"
    by blast
  then show ?thesis
    by (cases ext) (simp_all add: count_ok_def list_all_iff)
qed

lemma main_returns:
  assumes "main py_str srv env_key timestamp a w = Some (Inr s, w')"
  shows "\<exists>key places trace.
           env_key = Some key
           \<and> calculate_request_cost (PlacesSearcher key (arg_data_level a) (arg_debug a))
               = Inr (cost_per_request s)
           \<and> search_nearby srv (PlacesSearcher key (arg_data_level a) (arg_debug a))
               (query_of_args a) = Some (Inr (places, pages_fetched s), trace)
           \<and> total_cost s = cost_per_request s * real (pages_fetched s)"
  using assms
  by (auto simp: main_def Let_def truthy_def
      split: if_splits option.splits sum.splits prod.splits)

text \<open>
  Claim C9. When \<open>search_nearby\<close> returns normally, the count it returns is at least 1
  and is the number of exchanges whose answer was received and parsed; these are all the
  exchanges of the run, since a failed fetch leaves through \<open>sys.exit\<close> before the
  count is touched. When \<open>main\<close> completes, the total of its summary is the cost of one
  request times that number of successful exchanges.
\<close>

theorem request_count_counts_successes:
  "(search_nearby srv self q = Some (Inr (places, m), trace) \<longrightarrow>
      1 \<le> m \<and> m = count_ok trace \<and> m = length trace)
   \<and> (main py_str srv env_key timestamp a w = Some (Inr s, w') \<longrightarrow>
        (\<exists>key found exchanges.
           env_key = Some key
           \<and> search_nearby srv (PlacesSearcher key (arg_data_level a) (arg_debug a))
               (query_of_args a) = Some (Inr (found, pages_fetched s), exchanges)
           \<and> calculate_request_cost (PlacesSearcher key (arg_data_level a) (arg_debug a))
               = Inr (cost_per_request s)
           \<and> total_cost s = cost_per_request s * real (count_ok exchanges)))"
proof -
  have loop_part: "1 \<le> m \<and> m = count_ok trace \<and> m = length trace"
    if "search_nearby srv self q = Some (Inr (places, m), trace)"
    using that by (rule search_nearby_counts)
  have main_part: "\<exists>key found exchanges.
           env_key = Some key
           \<and> search_nearby srv (PlacesSearcher key (arg_data_level a) (arg_debug a))
               (query_of_args a) = Some (Inr (found, pages_fetched s), exchanges)
           \<and> calculate_request_cost (PlacesSearcher key (arg_data_level a) (arg_debug a))
               = Inr (cost_per_request s)
           \<and> total_cost s = cost_per_request s * real (count_ok exchanges)"
    if "main py_str srv env_key timestamp a w = Some (Inr s, w')"
  proof -
    from main_returns [OF that] obtain key found exchanges where
      key: "env_key = Some key"
      and cost: "calculate_request_cost (PlacesSearcher key (arg_data_level a) (arg_debug a))
                 = Inr (cost_per_request s)"
      and run: "search_nearby srv (PlacesSearcher key (arg_data_level a) (arg_debug a))
                 (query_of_args a) = Some (Inr (found, pages_fetched s), exchanges)"
      and total: "total_cost s = cost_per_request s * real (pages_fetched s)"
      by blast
    from search_nearby_counts [OF run] have "pages_fetched s = count_ok exchanges" by simp
    with key cost run total show ?thesis by auto
  qed
  from loop_part main_part show ?thesis by blast
qed

section \<open>The pagination loop: a fetch that fails\<close>

lemma search_nearby_fails:
  assumes "served srv self q 0 None pages"
    and "list_all has_token pages"
    and "srv (length pages) (build_request self q (token_after pages)) = Failed f"
  shows "search_nearby srv self q =
           Some (Inl (SystemExit 1),
                 exchanges_of self q None pages
                   @ [(build_request self q (token_after pages), Failed f)])"
proof -
  have served0: "served srv self q (length ([] :: exchange list)) None pages"
    using assms(1) by simp
  have tok: "(if pages = [] then None else token_after pages) = token_after pages"
    by (simp add: token_after_def)
  have "search_nearby srv self q =
          search_loop srv self q ([] @ concat (map page_places pages))
            (if pages = [] then None else token_after pages) (0 + length pages)
            ([] @ exchanges_of self q None pages)"
    unfolding search_nearby_def using served0 assms(2) by (rule search_loop_pages)
  also have "\<dots> = Some (Inl (SystemExit 1),
       exchanges_of self q None pages
         @ [(build_request self q (token_after pages), Failed f)])"
    using search_loop_failed [where tr = "exchanges_of self q None pages" and tok = "token_after pages"]
      assms(3)
    by (simp add: tok)
  finally show ?thesis .
qed

lemma main_after_failed_search:
  assumes "key \<noteq> []" and "recognized (arg_data_level a)"
    and "search_nearby srv (PlacesSearcher key (arg_data_level a) (arg_debug a))
           (query_of_args a) = Some (Inl e, trace)"
  shows "main py_str srv (Some key) timestamp a w = Some (Inl e, w)"
  using assms
  by (simp add: main_def recognized_def truthy_def cost_of_PlacesSearcher Let_def)

text \<open>
  Claim C3. Take a run in which the pages \<open>pages\<close> (any number of them, each carrying
  a continuation token) are fetched and the next fetch fails at the transport level. Then
  \<open>search_nearby\<close> leaves through \<open>sys.exit(1)\<close> and hands no records back; the
  failed request is the last exchange of the run, so it was sent once and nothing was
  sent after it. \<open>main\<close> then ends with exit status 1 and the world as it was: no file
  is written, no row exported.
\<close>

theorem transport_failure_aborts_run:
  assumes "served srv self q 0 None pages"
    and "list_all has_token pages"
    and "srv (length pages) (build_request self q (token_after pages)) = Failed f"
  shows "\<exists>trace.
           search_nearby srv self q = Some (Inl (SystemExit 1), trace)
           \<and> length trace = Suc (length pages)
           \<and> map snd trace = map Ok pages @ [Failed f]
           \<and> (\<forall>py_str key timestamp a w.
                 key \<noteq> [] \<and> recognized (arg_data_level a)
                 \<and> self = PlacesSearcher key (arg_data_level a) (arg_debug a)
                 \<and> q = query_of_args a \<longrightarrow>
                 main py_str srv (Some key) timestamp a w = Some (Inl (SystemExit 1), w)
                 \<and> exit_status (Inl (SystemExit 1) :: error + summary) = 1)"
proof -
  let ?trace = "exchanges_of self q None pages
                  @ [(build_request self q (token_after pages), Failed f)]"
  have run: "search_nearby srv self q = Some (Inl (SystemExit 1), ?trace)"
    using assms by (rule search_nearby_fails)
  have "main py_str srv (Some key) timestamp a w = Some (Inl (SystemExit 1), w)"
    if "key \<noteq> []" "recognized (arg_data_level a)"
      "self = PlacesSearcher key (arg_data_level a) (arg_debug a)" "q = query_of_args a"
    for py_str key timestamp a w
    using main_after_failed_search [OF that(1,2)] run that(3,4) by simp
  moreover have "exit_status (Inl (SystemExit 1) :: error + summary) = 1"
    by (simp add: exit_status_def)
  ultimately show ?thesis using run by (intro exI [of _ ?trace]) simp
qed


section \<open>The sample run\<close>

lemma sample_run:
  "search_nearby sample_service self q =
     Some (Inr ([[(''id'', JStr ''p1'')], [(''id'', JStr ''p2'')], [(''id'', JStr ''p3'')]], 2),
           [(build_request self q None, Ok sample_page1),
            (build_request self q (Some ''t1''), Ok sample_page2)])"
proof -
  have "search_nearby sample_service self q =
     Some (Inr (concat (map page_places [sample_page1, sample_page2]),
                length [sample_page1, sample_page2]),
           exchanges_of self q None [sample_page1, sample_page2])"
    by (rule search_nearby_pages)
      (simp_all add: sample_service_def sample_page1_def sample_page2_def has_token_def
        truthy_def pageToken_build_request)
  then show ?thesis
    by (simp add: page_places_def sample_page1_def sample_page2_def)
qed

theorem pagination_follows_tokens_witness:
  "\<exists>trace.
     search_nearby sample_service (PlacesSearcher ''key'' ''basic'' False)
       (query_of_args sample_args) =
       Some (Inr ([[(''id'', JStr ''p1'')], [(''id'', JStr ''p2'')], [(''id'', JStr ''p3'')]], 2),
             trace)
     \<and> length trace = 2
     \<and> map snd trace = [Ok sample_page1, Ok sample_page2]
     \<and> pageToken (json_body (fst (trace ! 0))) = None
     \<and> pageToken (json_body (fst (trace ! 1))) = Some ''t1''"
proof -
  let ?self = "PlacesSearcher ''key'' ''basic'' False" and ?q = "query_of_args sample_args"
  let ?pages = "[sample_page1, sample_page2]"
  have h1: "?pages \<noteq> []" by simp
  have h2: "served sample_service ?self ?q 0 None ?pages"
    by (simp add: sample_service_def sample_page1_def pageToken_build_request truthy_def)
  have h3: "list_all has_token (butlast ?pages)"
    by (simp add: has_token_def truthy_def sample_page1_def)
  have h4: "\<not> has_token (last ?pages)"
    by (simp add: has_token_def truthy_def sample_page2_def)
  from pagination_follows_tokens [OF h1 h2 h3 h4] obtain trace where
    t: "search_nearby sample_service ?self ?q =
             Some (Inr (concat (map page_places ?pages), length ?pages), trace)"
      "length trace = length ?pages" "map snd trace = map Ok ?pages"
      "pageToken (json_body (fst (trace ! 0))) = None"
      "\<forall>i. Suc i < length ?pages \<longrightarrow>
                 pageToken (json_body (fst (trace ! Suc i))) = result_nextPageToken (?pages ! i)
                 \<and> result_nextPageToken (?pages ! i) \<noteq> None"
    by blast
  from t(5) have "pageToken (json_body (fst (trace ! 1))) = Some ''t1''"
    by (simp add: sample_page1_def)
  with t(1-4) show ?thesis
    by (intro exI [of _ trace]) (simp add: page_places_def sample_page1_def sample_page2_def)
qed

lemma sample_searcher_cost:
  "calculate_request_cost (PlacesSearcher key ''id_only'' dbg) = Inr (17 / 1000)"
  by (simp add: request_cost_sum mask_fields_def
      field_name_def field_price_def FIELD_COSTS_def BASE_NEARBY_SEARCH_COST_def)

lemma sample_export:
  "save_to_csv py_str (PlacesSearcher ''key'' ''id_only'' False)
     [[(''id'', JStr ''p1'')], [(''id'', JStr ''p2'')], [(''id'', JStr ''p3'')]] ''out.csv''
     empty_world =
   (None,
    \<lparr>files = [''out.csv'' \<mapsto>
       [[JStr ''place_id'', JStr ''google_maps_url''],
        [JStr ''p1'', JStr ''https://www.google.com/maps/place/?q=place_id:p1''],
        [JStr ''p2'', JStr ''https://www.google.com/maps/place/?q=place_id:p2''],
        [JStr ''p3'', JStr ''https://www.google.com/maps/place/?q=place_id:p3'']]],
     stdout = [CHR 0x0A # ''Results saved to: out.csv'', ''Total places found: 3'']\<rparr>)"
  by (simp add: save_to_csv_def PlacesSearcher_def fieldnames_def assign_row_def
      id_only_row_def get_def format_value_def maps_url_prefix_def dict_to_list_def
      empty_world_def str_nat.simps)

lemma sample_main:
  "main py_str sample_service (Some ''key'') ''20240101_120000'' sample_args empty_world =
     Some (Inr \<lparr>pages_fetched = 2, places_found = 3, cost_per_request = 17 / 1000,
                total_cost = 34 / 1000\<rparr>,
           snd (save_to_csv py_str (PlacesSearcher ''key'' ''id_only'' False)
     [[(''id'', JStr ''p1'')], [(''id'', JStr ''p2'')], [(''id'', JStr ''p3'')]] ''out.csv''
     empty_world))"
proof -
  have level: "arg_data_level sample_args = ''id_only''" "arg_debug sample_args = False"
    "output_path ''20240101_120000'' sample_args = ''out.csv''"
    by (simp_all add: sample_args_def output_path_def)
  show ?thesis
    unfolding sample_export
    by (simp add: main_def level truthy_def sample_searcher_cost sample_run sample_export)
qed

theorem request_count_counts_successes_witness:
  "search_nearby sample_service (PlacesSearcher ''key'' ''id_only'' False)
     (query_of_args sample_args) =
     Some (Inr ([[(''id'', JStr ''p1'')], [(''id'', JStr ''p2'')], [(''id'', JStr ''p3'')]], 2),
           exchanges_of (PlacesSearcher ''key'' ''id_only'' False) (query_of_args sample_args)
             None [sample_page1, sample_page2])
   \<and> (1::nat) \<le> 2
   \<and> count_ok (exchanges_of (PlacesSearcher ''key'' ''id_only'' False)
        (query_of_args sample_args) None [sample_page1, sample_page2]) = 2
   \<and> (\<exists>s w'. main (\<lambda>v. []) sample_service (Some ''key'') ''20240101_120000'' sample_args
                empty_world = Some (Inr s, w')
             \<and> pages_fetched s = 2
             \<and> total_cost s = cost_per_request s * 2)"
proof -
  let ?self = "PlacesSearcher ''key'' ''id_only'' False" and ?q = "query_of_args sample_args"
  let ?trace = "exchanges_of ?self ?q None [sample_page1, sample_page2]"
  let ?places = "[[(''id'', JStr ''p1'')], [(''id'', JStr ''p2'')], [(''id'', JStr ''p3'')]]"
  let ?s = "\<lparr>pages_fetched = 2, places_found = 3, cost_per_request = 17 / 1000,
                total_cost = 34 / 1000\<rparr>"
  let ?w = "snd (save_to_csv (\<lambda>v. []) ?self ?places ''out.csv'' empty_world)"
  have run: "search_nearby sample_service ?self ?q = Some (Inr (?places, 2), ?trace)"
    by (simp add: sample_run sample_page1_def)
  have whole: "main (\<lambda>v. []) sample_service (Some ''key'') ''20240101_120000'' sample_args
                empty_world = Some (Inr ?s, ?w)"
    by (rule sample_main)
  from request_count_counts_successes
         [of sample_service ?self ?q ?places 2 ?trace "\<lambda>v. []" "Some ''key''"
            "''20240101_120000''" sample_args empty_world ?s ?w]
       run whole
  have counts: "(1::nat) \<le> 2 \<and> 2 = count_ok ?trace"
    and total: "\<exists>key found exchanges.
           Some ''key'' = Some key
           \<and> search_nearby sample_service
               (PlacesSearcher key (arg_data_level sample_args) (arg_debug sample_args))
               ?q = Some (Inr (found, pages_fetched ?s), exchanges)
           \<and> calculate_request_cost
                (PlacesSearcher key (arg_data_level sample_args) (arg_debug sample_args))
               = Inr (cost_per_request ?s)
           \<and> total_cost ?s = cost_per_request ?s * real (count_ok exchanges)"
    by blast+
  from total have "total_cost ?s = cost_per_request ?s * 2"
    by simp
  with run whole counts show ?thesis by auto
qed

theorem transport_failure_aborts_run_witness:
  "\<exists>trace.
     search_nearby failing_service (PlacesSearcher ''key'' ''id_only'' False)
       (query_of_args sample_args) = Some (Inl (SystemExit 1), trace)
     \<and> length trace = 2
     \<and> map snd trace = [Ok sample_page1, Failed (HTTPError 500)]
     \<and> main (\<lambda>v. []) failing_service (Some ''key'') ''20240101_120000'' sample_args
         empty_world = Some (Inl (SystemExit 1), empty_world)"
proof -
  let ?self = "PlacesSearcher ''key'' ''id_only'' False" and ?q = "query_of_args sample_args"
  have h1: "served failing_service ?self ?q 0 None [sample_page1]"
    by (simp add: failing_service_def)
  have h2: "list_all has_token [sample_page1]"
    by (simp add: has_token_def truthy_def sample_page1_def)
  have h3: "failing_service (length [sample_page1])
              (build_request ?self ?q (token_after [sample_page1])) = Failed (HTTPError 500)"
    by (simp add: failing_service_def)
  from transport_failure_aborts_run [of failing_service ?self ?q "[sample_page1]", OF h1 h2 h3]
  obtain trace where
    t: "search_nearby failing_service ?self ?q = Some (Inl (SystemExit 1), trace)"
      "length trace = Suc (length [sample_page1])"
      "map snd trace = map Ok [sample_page1] @ [Failed (HTTPError 500)]"
    and m: "\<forall>py_str key timestamp a w.
                 key \<noteq> [] \<and> recognized (arg_data_level a)
                 \<and> ?self = PlacesSearcher key (arg_data_level a) (arg_debug a)
                 \<and> ?q = query_of_args a \<longrightarrow>
                 main py_str failing_service (Some key) timestamp a w
                   = Some (Inl (SystemExit 1), w)
                 \<and> exit_status (Inl (SystemExit 1) :: error + summary) = 1"
    by blast
  have "''key'' \<noteq> [] \<and> recognized (arg_data_level sample_args)
        \<and> ?self = PlacesSearcher ''key'' (arg_data_level sample_args) (arg_debug sample_args)
        \<and> ?q = query_of_args sample_args"
    by (simp add: recognized_def sample_args_def)
  with m have "main (\<lambda>v. []) failing_service (Some ''key'') ''20240101_120000'' sample_args
         empty_world = Some (Inl (SystemExit 1), empty_world)"
    by blast
  with t show ?thesis by (intro exI [of _ trace]) simp
qed

section \<open>The exporter: how the file is built\<close>

lemma recognized_cases:
  "recognized level \<longleftrightarrow> level = ''id_only'' \<or> level = ''basic'' \<or> level = ''advanced''"
  by (auto simp: recognized_def)

lemma assign_row_recognized:
  "recognized level \<Longrightarrow> assign_row py_str level place row = assign_row py_str level place None"
  by (auto simp: recognized_cases assign_row_def)

lemma assign_row_unrecognized:
  "\<not> recognized level \<Longrightarrow> assign_row py_str level place row = Inr row"
  by (simp add: recognized_cases assign_row_def)

lemma write_rows_step:
  assumes "recognized level"
  shows "write_rows py_str level (fieldnames level) (place # rest) row written =
           (case row_cells py_str level place of
              Inl e \<Rightarrow> (Some e, written)
            | Inr cells \<Rightarrow>
                write_rows py_str level (fieldnames level) rest None (written @ [cells]))"
proof -
  have same: "write_rows py_str level (fieldnames level) rest (Some r) out =
              write_rows py_str level (fieldnames level) rest None out" for r out
    using assms
    by (cases rest) (simp_all add: assign_row_recognized [where row = "Some r"])
  show ?thesis
    using assms
    by (simp add: row_cells_def assign_row_recognized [where row = row] same
        split: sum.splits option.splits)
qed

lemma write_rows_all:
  assumes "recognized level"
    and "list_all2 (\<lambda>place cells. row_cells py_str level place = Inr cells) places rows"
  shows "write_rows py_str level (fieldnames level) places None written =
           (None, written @ rows)"
  using assms(2)
proof (induction places rows arbitrary: written rule: list_all2_induct)
  case Nil
  then show ?case by simp
next
  case (Cons place places cells rows)
  then show ?case by (simp add: write_rows_step [OF assms(1)] del: write_rows.simps(2))
qed

lemma write_rows_succeeded:
  assumes "recognized level"
    and "write_rows py_str level (fieldnames level) places None written = (None, out)"
  shows "\<exists>rows. out = written @ rows
           \<and> list_all2 (\<lambda>place cells. row_cells py_str level place = Inr cells) places rows"
  using assms(2)
proof (induction places arbitrary: written)
  case Nil
  then show ?case by simp
next
  case (Cons place places)
  from Cons.prems obtain cells where
    cells: "row_cells py_str level place = Inr cells"
    and rest: "write_rows py_str level (fieldnames level) places None (written @ [cells])
                 = (None, out)"
    by (auto simp: write_rows_step [OF assms(1)] simp del: write_rows.simps(2)
        split: sum.splits)
  from Cons.IH [OF rest] obtain rows where
    "out = (written @ [cells]) @ rows"
    "list_all2 (\<lambda>place cells. row_cells py_str level place = Inr cells) places rows"
    by blast
  with cells show ?case by (intro exI [of _ "cells # rows"]) simp
qed

lemma write_rows_unrecognized:
  "\<not> recognized level \<Longrightarrow>
     write_rows py_str level fns (place # rest) None written = (Some UnboundLocalError, written)"
  by (simp add: assign_row_unrecognized)

lemma save_to_csv_nonempty:
  assumes "places \<noteq> []"
  shows "save_to_csv py_str self places out w =
     (case write_rows py_str (data_level self) (fieldnames (data_level self)) places None
             [map JStr (fieldnames (data_level self))] of
        (Some e, written) \<Rightarrow> (Some e, w\<lparr>files := (files w)(out \<mapsto> written)\<rparr>)
      | (None, written) \<Rightarrow>
          (None, w\<lparr>files := (files w)(out \<mapsto> written),
                   stdout := stdout w @
                     [CHR 0x0A # ''Results saved to: '' @ out,
                      ''Total places found: '' @ str_nat (length places)]\<rparr>))"
  using assms by (simp add: save_to_csv_def Let_def split: prod.splits option.splits)

lemma row_cells_id_only:
  "row_cells py_str ''id_only'' place =
     Inr [get place ''id'' (JStr []),
          JStr (maps_url_prefix @ format_value py_str (get place ''id'' (JStr [])))]"
  by (simp add: row_cells_def assign_row_def id_only_row_def fieldnames_def dict_to_list_def
      get_def Let_def)

lemma save_to_csv_succeeds:
  assumes "recognized (data_level self)" and "places \<noteq> []"
    and "list_all2 (\<lambda>place cells. row_cells py_str (data_level self) place = Inr cells)
           places rows"
  shows "save_to_csv py_str self places out w =
           (None, w\<lparr>files := (files w)(out \<mapsto> map JStr (fieldnames (data_level self)) # rows),
                    stdout := stdout w @ saved_notice out (length places)\<rparr>)"
  using write_rows_all [OF assms(1,3), of "[map JStr (fieldnames (data_level self))]"]
  by (simp add: save_to_csv_nonempty [OF assms(2)] saved_notice_def)

lemma save_to_csv_succeeded:
  assumes "recognized (data_level self)" and "places \<noteq> []"
    and "save_to_csv py_str self places out w = (None, w')"
  shows "\<exists>rows. files w' out = Some (map JStr (fieldnames (data_level self)) # rows)
           \<and> list_all2 (\<lambda>place cells. row_cells py_str (data_level self) place = Inr cells)
                places rows"
proof -
  obtain raised written where
    wr: "write_rows py_str (data_level self) (fieldnames (data_level self)) places None
           [map JStr (fieldnames (data_level self))] = (raised, written)"
    by (cases "write_rows py_str (data_level self) (fieldnames (data_level self)) places None
           [map JStr (fieldnames (data_level self))]")
  with assms(3) have none: "raised = None" and w': "files w' out = Some written"
    by (auto simp: save_to_csv_nonempty [OF assms(2)] split: option.splits)
  from write_rows_succeeded [OF assms(1) wr [unfolded none]] w' show ?thesis by auto
qed

lemma dict_to_list_own_keys:
  assumes "distinct (map fst r)"
  shows "dict_to_list (map fst r) r = Inr (map snd r)"
proof -
  have "get r k (JStr []) = v" if "(k, v) \<in> set r" for k v
    using assms that by (simp add: get_def)
  then have "map (\<lambda>k. get r k (JStr [])) (map fst r) = map snd r"
    by (auto simp: comp_def)
  moreover have "list_all (\<lambda>k. List.member (map fst r) k) (map fst r)"
    by (simp add: list_all_iff)
  ultimately show ?thesis by (simp add: dict_to_list_def)
qed





lemma strings_of_map_JStr [simp]: "strings_of (map JStr ts) = Some ts"
  by (induction ts) simp_all

lemma join_value_strings:
  "map_of place k = Some (JList (map JStr ts)) \<Longrightarrow>
     join_value (get place k (JList [])) = Inr (JStr (join '', '' ts))"
  by (simp add: join_value_def get_def)



lemma basic_row_keys: "basic_row place = Inr r \<Longrightarrow> map fst r = fieldnames ''basic''"
  by (auto simp: basic_row_def fieldnames_def split: sum.splits)

lemma advanced_row_keys: "advanced_row place = Inr r \<Longrightarrow> map fst r = fieldnames ''advanced''"
  by (auto simp: advanced_row_def fieldnames_def split: sum.splits)

lemma distinct_fieldnames: "distinct (fieldnames level)"
  by (simp add: fieldnames_def)

lemma row_cells_basic:
  "row_cells py_str ''basic'' place =
     (case basic_row place of Inl e \<Rightarrow> Inl e | Inr r \<Rightarrow> Inr (map snd r))"
proof (cases "basic_row place")
  case (Inl e)
  then show ?thesis by (simp add: row_cells_def assign_row_def)
next
  case (Inr r)
  from basic_row_keys [OF Inr] distinct_fieldnames [of "''basic''"]
  have "dict_to_list (fieldnames ''basic'') r = Inr (map snd r)"
    using dict_to_list_own_keys [of r] by simp
  with Inr show ?thesis by (simp add: row_cells_def assign_row_def)
qed

lemma row_cells_advanced:
  "row_cells py_str ''advanced'' place =
     (case advanced_row place of Inl e \<Rightarrow> Inl e | Inr r \<Rightarrow> Inr (map snd r))"
proof (cases "advanced_row place")
  case (Inl e)
  then show ?thesis by (simp add: row_cells_def assign_row_def)
next
  case (Inr r)
  from advanced_row_keys [OF Inr] distinct_fieldnames [of "''advanced''"]
  have "dict_to_list (fieldnames ''advanced'') r = Inr (map snd r)"
    using dict_to_list_own_keys [of r] by simp
  with Inr show ?thesis by (simp add: row_cells_def assign_row_def)
qed


lemma basic_row_entries:
  assumes "basic_row place = Inr r"
  obtains name lat lng types where
    "get_nested place ''displayName'' ''text'' = Inr name"
    "get_nested place ''location'' ''latitude'' = Inr lat"
    "get_nested place ''location'' ''longitude'' = Inr lng"
    "join_value (get place ''types'' (JList [])) = Inr types"
    "map snd r =
       [get place ''id'' (JStr []), name, get place ''formattedAddress'' (JStr []), lat, lng,
        types, get place ''primaryType'' (JStr []), get place ''googleMapsUri'' (JStr [])]"
  using assms by (auto simp: basic_row_def split: sum.splits)

lemma advanced_row_entries:
  assumes "advanced_row place = Inr r"
  obtains name lat lng types where
    "get_nested place ''displayName'' ''text'' = Inr name"
    "get_nested place ''location'' ''latitude'' = Inr lat"
    "get_nested place ''location'' ''longitude'' = Inr lng"
    "join_value (get place ''types'' (JList [])) = Inr types"
    "map snd r =
       [get place ''id'' (JStr []), name, get place ''formattedAddress'' (JStr []), lat, lng,
        types, get place ''primaryType'' (JStr []), get place ''googleMapsUri'' (JStr []),
        get place ''rating'' (JStr []), get place ''userRatingCount'' (JStr []),
        get place ''nationalPhoneNumber'' (JStr []),
        get place ''internationalPhoneNumber'' (JStr []),
        get place ''websiteUri'' (JStr []), get place ''businessStatus'' (JStr [])]"
  using assms by (auto simp: advanced_row_def split: sum.splits)






lemma row_cells_map_link:
  assumes "recognized level" and "row_cells py_str level place = Inr cells"
  shows "column (fieldnames level) cells ''google_maps_url'' = Some (map_link py_str level place)"
proof -
  consider "level = ''id_only''" | "level = ''basic''" | "level = ''advanced''"
    using assms(1) by (auto simp: recognized_cases)
  then show ?thesis
  proof cases
    case 1
    with assms(2) show ?thesis
      by (auto simp: row_cells_id_only map_link_def fieldnames_def column_def)
  next
    case 2
    with assms(2) obtain r where r: "basic_row place = Inr r" and cells: "cells = map snd r"
      by (auto simp: row_cells_basic split: sum.splits)
    from r show ?thesis
      unfolding cells 2
      by (rule basic_row_entries) (simp add: map_link_def fieldnames_def column_def)
  next
    case 3
    with assms(2) obtain r where r: "advanced_row place = Inr r" and cells: "cells = map snd r"
      by (auto simp: row_cells_advanced split: sum.splits)
    from r show ?thesis
      unfolding cells 3
      by (rule advanced_row_entries) (simp add: map_link_def fieldnames_def column_def)
  qed
qed

lemma row_cells_types:
  assumes "level = ''basic'' \<or> level = ''advanced''"
    and "row_cells py_str level place = Inr cells"
    and "map_of place ''types'' = Some (JList (map JStr ts))"
  shows "column (fieldnames level) cells ''types'' = Some (JStr (join '', '' ts))"
proof -
  note joined = join_value_strings [OF assms(3)]
  from assms(1) show ?thesis
  proof
    assume l: "level = ''basic''"
    with assms(2) obtain r where r: "basic_row place = Inr r" and cells: "cells = map snd r"
      by (auto simp: row_cells_basic split: sum.splits)
    from r show ?thesis
      unfolding cells l
      by (rule basic_row_entries) (simp add: joined fieldnames_def column_def)
  next
    assume l: "level = ''advanced''"
    with assms(2) obtain r where r: "advanced_row place = Inr r" and cells: "cells = map snd r"
      by (auto simp: row_cells_advanced split: sum.splits)
    from r show ?thesis
      unfolding cells l
      by (rule advanced_row_entries) (simp add: joined fieldnames_def column_def)
  qed
qed

lemma data_level_PlacesSearcher [simp]: "data_level (PlacesSearcher key level dbg) = level"
  by (simp add: PlacesSearcher_def)


lemma write_rows_extends:
  "\<exists>rows. snd (write_rows py_str level fns places row written) = written @ rows"
proof (induction places arbitrary: row written)
  case Nil
  then show ?case by simp
next
  case (Cons place places)
  show ?case
  proof (cases "assign_row py_str level place row")
    case (Inl e)
    then show ?thesis by simp
  next
    case (Inr bound)
    show ?thesis
    proof (cases bound)
      case None
      with Inr show ?thesis by simp
    next
      case (Some r)
      show ?thesis
      proof (cases "dict_to_list fns r")
        case (Inl e)
        with Inr Some show ?thesis by simp
      next
        case cells: (Inr cells)
        from Cons.IH [of "Some r" "written @ [cells]"] obtain rows where
          "snd (write_rows py_str level fns places (Some r) (written @ [cells]))
             = (written @ [cells]) @ rows"
          by blast
        with Inr Some cells show ?thesis by simp
      qed
    qed
  qed
qed

lemma save_to_csv_file:
  assumes "places \<noteq> []"
  shows "fst (save_to_csv py_str self places out w) =
           fst (write_rows py_str (data_level self) (fieldnames (data_level self)) places None
                  [map JStr (fieldnames (data_level self))])"
    and "files (snd (save_to_csv py_str self places out w)) out =
           Some (snd (write_rows py_str (data_level self) (fieldnames (data_level self)) places
                        None [map JStr (fieldnames (data_level self))]))"
  by (simp_all add: save_to_csv_nonempty [OF assms] split: prod.splits option.splits)


section \<open>The exporter: properties\<close>

text \<open>
  Claim C7. Called with an empty record list, \<open>save_to_csv\<close> raises nothing, prints
  the one line "No places found in the results" and returns before the output file is
  opened: the file system is as it was, at the output path and everywhere else.
\<close>

theorem empty_list_writes_no_file:
  "save_to_csv py_str self [] out w =
     (None, w\<lparr>stdout := stdout w @ [''No places found in the results'']\<rparr>)
   \<and> files (snd (save_to_csv py_str self [] out w)) = files w"
  by (simp add: save_to_csv_def)

text \<open>
  Claim C4, as the code behaves. At a data level outside \<open>id_only\<close>, \<open>basic\<close> and
  \<open>advanced\<close> the client requests the field mask of \<open>id_only\<close> and the exporter
  takes the single column \<open>place_id\<close>; but for a record list that is not empty the loop
  over the records never binds \<open>row\<close>, so the first \<open>writerow(row)\<close> raises
  \<open>UnboundLocalError\<close> and the file is left with its header only, without any row.
\<close>

theorem unrecognized_level_export_raises:
  assumes "\<not> recognized (data_level self)" and "places \<noteq> []"
  shows "mask_fields (data_level self) = mask_fields ''id_only''
         \<and> get_field_mask (data_level self) = ''places.id,places.displayName''
         \<and> fieldnames (data_level self) = [''place_id'']
         \<and> save_to_csv py_str self places out w =
             (Some UnboundLocalError, w\<lparr>files := (files w)(out \<mapsto> [[JStr ''place_id'']])\<rparr>)"
proof -
  from assms(1) have level: "data_level self \<noteq> ''id_only''" "data_level self \<noteq> ''basic''"
    "data_level self \<noteq> ''advanced''"
    by (auto simp: recognized_cases)
  from assms(2) obtain place rest where places: "places = place # rest"
    by (cases places) auto
  have mask: "mask_fields (data_level self) = mask_fields ''id_only''"
    using level by (simp add: mask_fields_def)
  have joined: "get_field_mask (data_level self) = ''places.id,places.displayName''"
    unfolding get_field_mask_def mask by (simp add: mask_fields_def)
  have columns: "fieldnames (data_level self) = [''place_id'']"
    using level by (simp add: fieldnames_def)
  have "save_to_csv py_str self places out w =
          (Some UnboundLocalError, w\<lparr>files := (files w)(out \<mapsto> [[JStr ''place_id'']])\<rparr>)"
    unfolding save_to_csv_nonempty [OF assms(2)] columns
    unfolding places write_rows_unrecognized [OF assms(1)]
    by simp
  with mask joined columns show ?thesis by simp
qed

theorem unrecognized_level_export_raises_witness:
  "\<not> recognized ''full''
   \<and> get_field_mask ''full'' = ''places.id,places.displayName''
   \<and> save_to_csv (\<lambda>v. []) (PlacesSearcher ''key'' ''full'' False) [sample_place_bare]
       ''out.csv'' empty_world =
       (Some UnboundLocalError,
        \<lparr>files = [''out.csv'' \<mapsto> [[JStr ''place_id'']]], stdout = []\<rparr>)"
proof -
  have h1: "\<not> recognized (data_level (PlacesSearcher ''key'' ''full'' False))"
    by (simp add: recognized_def)
  have h2: "[sample_place_bare] \<noteq> []" by simp
  from unrecognized_level_export_raises [OF h1 h2, of "\<lambda>v. []" "''out.csv''" empty_world] h1
  show ?thesis
    by (simp add: empty_world_def)
qed

lemma id_only_rows:
  "list_all2 (\<lambda>place cells. row_cells py_str ''id_only'' place = Inr cells) places
     (map (\<lambda>place. [get place ''id'' (JStr []),
                     JStr (maps_url_prefix @ format_value py_str (get place ''id'' (JStr [])))])
          places)"
  by (simp add: list_all2_map2 row_cells_id_only list_all2_same)

lemma id_only_export:
  assumes "data_level self = ''id_only''" and "places \<noteq> []"
  shows "save_to_csv py_str self places out w =
           (None,
            w\<lparr>files := (files w)(out \<mapsto>
                 [JStr ''place_id'', JStr ''google_maps_url'']
                 # map (\<lambda>place. [get place ''id'' (JStr []),
                                   JStr (maps_url_prefix
                                         @ format_value py_str (get place ''id'' (JStr [])))])
                       places),
              stdout := stdout w @ saved_notice out (length places)\<rparr>)"
proof -
  have known: "recognized (data_level self)"
    using assms(1) by (simp add: recognized_cases)
  from save_to_csv_succeeds [OF known assms(2), of py_str] id_only_rows [of py_str places]
  show ?thesis
    by (simp add: assms(1) fieldnames_def)
qed

text \<open>
  Claim C10. At the \<open>id_only\<close> level every export of a record list that is not empty
  completes, and the \<open>google_maps_url\<close> cell of each row is the fixed URL prefix
  followed by the record's identifier. For a record without identifier that is the prefix
  alone, not the empty string. The file depends on the records through their identifiers
  only, so a \<open>googleMapsUri\<close> inside a record changes nothing.
\<close>

theorem id_only_map_link_from_identifier:
  assumes "data_level self = ''id_only''" and "places \<noteq> []"
  shows "save_to_csv py_str self places out w =
           (None,
            w\<lparr>files := (files w)(out \<mapsto>
                 [JStr ''place_id'', JStr ''google_maps_url'']
                 # map (\<lambda>place. [get place ''id'' (JStr []),
                                   JStr (maps_url_prefix
                                         @ format_value py_str (get place ''id'' (JStr [])))])
                       places),
              stdout := stdout w @ saved_notice out (length places)\<rparr>)
         \<and> (\<forall>place. map_of place ''id'' = None \<longrightarrow>
               JStr (maps_url_prefix @ format_value py_str (get place ''id'' (JStr [])))
                 = JStr maps_url_prefix)
         \<and> (\<forall>others. list_all2 (\<lambda>place other. map_of place ''id'' = map_of other ''id'')
                         places others \<longrightarrow>
               files (snd (save_to_csv py_str self others out w)) out
                 = files (snd (save_to_csv py_str self places out w)) out)"
proof -
  have no_id: "JStr (maps_url_prefix @ format_value py_str (get place ''id'' (JStr [])))
                 = JStr maps_url_prefix" if "map_of place ''id'' = None" for place
    using that by (simp add: get_def format_value_def)
  have same: "files (snd (save_to_csv py_str self others out w)) out
                 = files (snd (save_to_csv py_str self places out w)) out"
    if "list_all2 (\<lambda>place other. map_of place ''id'' = map_of other ''id'') places others"
    for others
  proof -
    from that assms(2) have nonempty: "others \<noteq> []" by auto
    from that have "map (\<lambda>place. [get place ''id'' (JStr []),
                     JStr (maps_url_prefix @ format_value py_str (get place ''id'' (JStr [])))])
          others = map (\<lambda>place. [get place ''id'' (JStr []),
                     JStr (maps_url_prefix @ format_value py_str (get place ''id'' (JStr [])))])
          places"
      by (induction places others rule: list_all2_induct) (simp_all add: get_def)
    then show ?thesis
      unfolding id_only_export [OF assms(1) nonempty] id_only_export [OF assms]
      by simp
  qed
  show ?thesis
  proof (intro conjI allI impI)
    show "save_to_csv py_str self places out w =
           (None,
            w\<lparr>files := (files w)(out \<mapsto>
                 [JStr ''place_id'', JStr ''google_maps_url'']
                 # map (\<lambda>place. [get place ''id'' (JStr []),
                                   JStr (maps_url_prefix
                                         @ format_value py_str (get place ''id'' (JStr [])))])
                       places),
              stdout := stdout w @ saved_notice out (length places)\<rparr>)"
      by (rule id_only_export [OF assms])
  next
    fix place :: dict
    assume "map_of place ''id'' = None"
    then show "JStr (maps_url_prefix @ format_value py_str (get place ''id'' (JStr [])))
                 = JStr maps_url_prefix"
      by (rule no_id)
  next
    fix others
    assume "list_all2 (\<lambda>place other. map_of place ''id'' = map_of other ''id'') places others"
    then show "files (snd (save_to_csv py_str self others out w)) out
                 = files (snd (save_to_csv py_str self places out w)) out"
      by (rule same)
  qed
qed

theorem id_only_map_link_from_identifier_witness:
  "save_to_csv (\<lambda>v. []) (PlacesSearcher ''key'' ''id_only'' False) [sample_place_full, []]
     ''out.csv'' empty_world =
     (None,
      \<lparr>files = [''out.csv'' \<mapsto>
         [[JStr ''place_id'', JStr ''google_maps_url''],
          [JStr ''abc'', JStr ''https://www.google.com/maps/place/?q=place_id:abc''],
          [JStr [], JStr ''https://www.google.com/maps/place/?q=place_id:'']]],
       stdout = saved_notice ''out.csv'' 2\<rparr>)
   \<and> map_of sample_place_full ''googleMapsUri'' = Some (JStr ''https://maps.google.com/?cid=1'')"
proof -
  have h1: "data_level (PlacesSearcher ''key'' ''id_only'' False) = ''id_only''" by simp
  have h2: "[sample_place_full, []] \<noteq> []" by simp
  note id_only_map_link_from_identifier [OF h1 h2, of "\<lambda>v. []" "''out.csv''" empty_world]
  then have "save_to_csv (\<lambda>v. []) (PlacesSearcher ''key'' ''id_only'' False)
      [sample_place_full, []] ''out.csv'' empty_world =
           (None,
            empty_world\<lparr>files := (files empty_world)(''out.csv'' \<mapsto>
                 [JStr ''place_id'', JStr ''google_maps_url'']
                 # map (\<lambda>place. [get place ''id'' (JStr []),
                                   JStr (maps_url_prefix
                                         @ format_value (\<lambda>v. []) (get place ''id'' (JStr [])))])
                       [sample_place_full, []]),
              stdout := stdout empty_world @ saved_notice ''out.csv''
                          (length [sample_place_full, []])\<rparr>)"
    by (rule conjunct1)
  then show ?thesis
    by (simp add: sample_place_full_def get_def format_value_def maps_url_prefix_def
        empty_world_def numeral_2_eq_2)
qed

text \<open>
  Claim C5 as stated fails at the \<open>basic\<close> level: the record \<open>{"id": "abc"}\<close> has no
  \<open>googleMapsUri\<close>, and its row has the empty string under \<open>google_maps_url\<close>, not a
  link composed from the identifier.
\<close>

theorem map_link_left_empty_counterexample:
  "map_of sample_place_bare ''googleMapsUri'' = None
   \<and> save_to_csv (\<lambda>v. []) (PlacesSearcher ''key'' ''basic'' False) [sample_place_bare]
       ''out.csv'' empty_world =
       (None,
        \<lparr>files = [''out.csv'' \<mapsto>
           [map JStr (fieldnames ''basic''),
            [JStr ''abc'', JStr [], JStr [], JStr [], JStr [], JStr [], JStr [], JStr []]]],
         stdout = saved_notice ''out.csv'' 1\<rparr>)
   \<and> column (fieldnames ''basic'')
         [JStr ''abc'', JStr [], JStr [], JStr [], JStr [], JStr [], JStr [], JStr []]
         ''google_maps_url'' = Some (JStr [])
   \<and> JStr [] \<noteq> JStr (maps_url_prefix @ ''abc'')"
  by (simp add: save_to_csv_def fieldnames_def assign_row_def basic_row_def get_nested_def
      join_value_def get_def dict_to_list_def sample_place_bare_def empty_world_def
      saved_notice_def column_def maps_url_prefix_def)

text \<open>
  Claim C5, amended. Whenever the export of a record list (not empty, at a recognized
  level) completes, the file holds one row for each record, in order, and the
  \<open>google_maps_url\<close> cell of a row is: at \<open>id_only\<close>, the fixed prefix followed by the
  record's identifier; at \<open>basic\<close> and \<open>advanced\<close>, the record's \<open>googleMapsUri\<close>, and
  the empty string when the record has none. Only \<open>id_only\<close> composes the link.
\<close>

theorem map_link_column:
  assumes "recognized (data_level self)" and "places \<noteq> []"
    and "save_to_csv py_str self places out w = (None, w')"
  shows "\<exists>rows.
           files w' out = Some (map JStr (fieldnames (data_level self)) # rows)
           \<and> list_all2 (\<lambda>place cells.
                  column (fieldnames (data_level self)) cells ''google_maps_url''
                    = Some (map_link py_str (data_level self) place)) places rows
           \<and> list_all2 (\<lambda>place cells.
                  column (fieldnames (data_level self)) cells ''google_maps_url'' =
                    (if data_level self = ''id_only''
                     then Some (JStr (maps_url_prefix
                                      @ format_value py_str (get place ''id'' (JStr []))))
                     else if map_of place ''googleMapsUri'' = None then Some (JStr [])
                     else map_of place ''googleMapsUri'')) places rows"
proof -
  from save_to_csv_succeeded [OF assms] obtain rows where
    written: "files w' out = Some (map JStr (fieldnames (data_level self)) # rows)"
    and rows: "list_all2 (\<lambda>place cells. row_cells py_str (data_level self) place = Inr cells)
                 places rows"
    by blast
  have link: "list_all2 (\<lambda>place cells.
                  column (fieldnames (data_level self)) cells ''google_maps_url''
                    = Some (map_link py_str (data_level self) place)) places rows"
    using rows by (rule list_all2_mono) (rule row_cells_map_link [OF assms(1)])
  have "list_all2 (\<lambda>place cells.
                  column (fieldnames (data_level self)) cells ''google_maps_url'' =
                    (if data_level self = ''id_only''
                     then Some (JStr (maps_url_prefix
                                      @ format_value py_str (get place ''id'' (JStr []))))
                     else if map_of place ''googleMapsUri'' = None then Some (JStr [])
                     else map_of place ''googleMapsUri'')) places rows"
    using link
    by (rule list_all2_mono) (auto simp: map_link_def get_def)
  with written link show ?thesis by blast
qed

theorem map_link_column_witness:
  "\<exists>w' rows.
     save_to_csv (\<lambda>v. []) (PlacesSearcher ''key'' ''basic'' False)
       [sample_place_full, sample_place_bare] ''out.csv'' empty_world = (None, w')
     \<and> files w' ''out.csv'' = Some (map JStr (fieldnames ''basic'') # rows)
     \<and> list_all2 (\<lambda>place cells.
            column (fieldnames ''basic'') cells ''google_maps_url''
              = Some (map_link (\<lambda>v. []) ''basic'' place))
          [sample_place_full, sample_place_bare] rows
     \<and> map_link (\<lambda>v. []) ''basic'' sample_place_full = JStr ''https://maps.google.com/?cid=1''
     \<and> map_link (\<lambda>v. []) ''basic'' sample_place_bare = JStr []"
proof -
  let ?self = "PlacesSearcher ''key'' ''basic'' False"
  let ?places = "[sample_place_full, sample_place_bare]"
  obtain w' where run: "save_to_csv (\<lambda>v. []) ?self ?places ''out.csv'' empty_world = (None, w')"
    by (simp add: save_to_csv_def fieldnames_def assign_row_def basic_row_def get_nested_def
        join_value_def get_def dict_to_list_def sample_place_bare_def sample_place_full_def)
  have h1: "recognized (data_level ?self)" by (simp add: recognized_def)
  have h2: "?places \<noteq> []" by simp
  from map_link_column [OF h1 h2 run] obtain rows where
    "files w' ''out.csv'' = Some (map JStr (fieldnames (data_level ?self)) # rows)"
    "list_all2 (\<lambda>place cells.
            column (fieldnames (data_level ?self)) cells ''google_maps_url''
              = Some (map_link (\<lambda>v. []) (data_level ?self) place)) ?places rows"
    by blast
  moreover have "map_link (\<lambda>v. []) ''basic'' sample_place_full
                   = JStr ''https://maps.google.com/?cid=1''"
    "map_link (\<lambda>v. []) ''basic'' sample_place_bare = JStr []"
    by (simp_all add: map_link_def get_def sample_place_full_def sample_place_bare_def)
  ultimately show ?thesis using run by auto
qed





lemma row_cells_length:
  assumes "row_cells py_str level place = Inr cells"
  shows "length cells = length (fieldnames level)"
  using assms
  by (auto simp: row_cells_def dict_to_list_def split: sum.splits option.splits if_splits)

text \<open>
  Claim C8. Two runs of the exporter on the same record list at the same data level end
  alike and, when the list is not empty, leave the same content in their output files,
  whatever the API key, the debug flag, the output paths and the worlds they start from.
  The first row of the file is the level's column list, in its fixed order, whatever the
  records are. When the export completes at a recognized level, every row has one cell
  for each column, and a \<open>types\<close> field that is a list of strings appears as these
  strings joined by a comma and a space.
\<close>

theorem export_is_a_function_of_level_and_records:
  assumes "data_level self1 = data_level self2"
  shows "fst (save_to_csv py_str self1 places out1 w1)
           = fst (save_to_csv py_str self2 places out2 w2)
         \<and> (places \<noteq> [] \<longrightarrow>
               files (snd (save_to_csv py_str self1 places out1 w1)) out1
                 = files (snd (save_to_csv py_str self2 places out2 w2)) out2
               \<and> (\<exists>rows. files (snd (save_to_csv py_str self1 places out1 w1)) out1
                            = Some (map JStr (fieldnames (data_level self1)) # rows)))
         \<and> (places \<noteq> [] \<and> recognized (data_level self1)
              \<and> fst (save_to_csv py_str self1 places out1 w1) = None \<longrightarrow>
               (\<exists>rows. files (snd (save_to_csv py_str self1 places out1 w1)) out1
                          = Some (map JStr (fieldnames (data_level self1)) # rows)
                  \<and> list_all2 (\<lambda>place cells.
                        length cells = length (fieldnames (data_level self1))
                        \<and> (\<forall>ts. data_level self1 \<noteq> ''id_only''
                                  \<and> map_of place ''types'' = Some (JList (map JStr ts)) \<longrightarrow>
                              column (fieldnames (data_level self1)) cells ''types''
                                = Some (JStr (join '', '' ts))))
                      places rows))"
proof (intro conjI impI)
  show "fst (save_to_csv py_str self1 places out1 w1)
           = fst (save_to_csv py_str self2 places out2 w2)"
  proof (cases "places = []")
    case True
    then show ?thesis by (simp add: save_to_csv_def)
  next
    case False
    then show ?thesis by (simp add: save_to_csv_file(1) assms)
  qed
next
  assume "places \<noteq> []"
  then show "files (snd (save_to_csv py_str self1 places out1 w1)) out1
                 = files (snd (save_to_csv py_str self2 places out2 w2)) out2"
    by (simp add: save_to_csv_file(2) assms)
next
  assume "places \<noteq> []"
  then show "\<exists>rows. files (snd (save_to_csv py_str self1 places out1 w1)) out1
                            = Some (map JStr (fieldnames (data_level self1)) # rows)"
    using write_rows_extends [of py_str "data_level self1" "fieldnames (data_level self1)"
        places None "[map JStr (fieldnames (data_level self1))]"]
    by (auto simp: save_to_csv_file(2))
next
  assume a: "places \<noteq> [] \<and> recognized (data_level self1)
              \<and> fst (save_to_csv py_str self1 places out1 w1) = None"
  then obtain w' where run: "save_to_csv py_str self1 places out1 w1 = (None, w')"
    by (cases "save_to_csv py_str self1 places out1 w1") auto
  from a have known: "recognized (data_level self1)" and nonempty: "places \<noteq> []"
    by simp_all
  from save_to_csv_succeeded [OF known nonempty run] obtain rows where
    written: "files w' out1 = Some (map JStr (fieldnames (data_level self1)) # rows)"
    and rows: "list_all2 (\<lambda>place cells. row_cells py_str (data_level self1) place = Inr cells)
                 places rows"
    by blast
  have "list_all2 (\<lambda>place cells.
                        length cells = length (fieldnames (data_level self1))
                        \<and> (\<forall>ts. data_level self1 \<noteq> ''id_only''
                                  \<and> map_of place ''types'' = Some (JList (map JStr ts)) \<longrightarrow>
                              column (fieldnames (data_level self1)) cells ''types''
                                = Some (JStr (join '', '' ts))))
                      places rows"
    using rows
  proof (rule list_all2_mono)
    fix place cells
    assume c: "row_cells py_str (data_level self1) place = Inr cells"
    have "column (fieldnames (data_level self1)) cells ''types'' = Some (JStr (join '', '' ts))"
      if "data_level self1 \<noteq> ''id_only''"
        "map_of place ''types'' = Some (JList (map JStr ts))" for ts
    proof (rule row_cells_types [OF _ c that(2)])
      from known that(1) show "data_level self1 = ''basic'' \<or> data_level self1 = ''advanced''"
        by (auto simp: recognized_cases)
    qed
    with row_cells_length [OF c]
    show "length cells = length (fieldnames (data_level self1))
                        \<and> (\<forall>ts. data_level self1 \<noteq> ''id_only''
                                  \<and> map_of place ''types'' = Some (JList (map JStr ts)) \<longrightarrow>
                              column (fieldnames (data_level self1)) cells ''types''
                                = Some (JStr (join '', '' ts)))"
      by blast
  qed
  with written run
  show "\<exists>rows. files (snd (save_to_csv py_str self1 places out1 w1)) out1
                          = Some (map JStr (fieldnames (data_level self1)) # rows)
                  \<and> list_all2 (\<lambda>place cells.
                        length cells = length (fieldnames (data_level self1))
                        \<and> (\<forall>ts. data_level self1 \<noteq> ''id_only''
                                  \<and> map_of place ''types'' = Some (JList (map JStr ts)) \<longrightarrow>
                              column (fieldnames (data_level self1)) cells ''types''
                                = Some (JStr (join '', '' ts))))
                      places rows"
    by (intro exI [of _ rows]) simp
qed


theorem export_is_a_function_of_level_and_records_witness:
  "fst (save_to_csv (\<lambda>v. []) (PlacesSearcher ''key1'' ''basic'' False) [sample_place_full]
          ''a.csv'' empty_world)
     = fst (save_to_csv (\<lambda>v. []) (PlacesSearcher ''key2'' ''basic'' True) [sample_place_full]
              ''b.csv'' \<lparr>files = [''b.csv'' \<mapsto> [[JStr ''old'']]], stdout = [''earlier'']\<rparr>)
   \<and> files (snd (save_to_csv (\<lambda>v. []) (PlacesSearcher ''key1'' ''basic'' False)
                    [sample_place_full] ''a.csv'' empty_world)) ''a.csv''
     = files (snd (save_to_csv (\<lambda>v. []) (PlacesSearcher ''key2'' ''basic'' True)
                    [sample_place_full] ''b.csv''
                    \<lparr>files = [''b.csv'' \<mapsto> [[JStr ''old'']]], stdout = [''earlier'']\<rparr>))
         ''b.csv''
   \<and> files (snd (save_to_csv (\<lambda>v. []) (PlacesSearcher ''key1'' ''basic'' False)
                    [sample_place_full] ''a.csv'' empty_world)) ''a.csv''
     = Some [map JStr (fieldnames ''basic''),
             [JStr ''abc'', JStr ''Cafe Uno'', JStr ''1 Main St'', JNum 40.7, JNum (- 74),
              JStr ''cafe, food'', JStr ''cafe'', JStr ''https://maps.google.com/?cid=1'']]"
proof -
  let ?s1 = "PlacesSearcher ''key1'' ''basic'' False"
  let ?s2 = "PlacesSearcher ''key2'' ''basic'' True"
  let ?w2 = "\<lparr>files = [''b.csv'' \<mapsto> [[JStr ''old'']]], stdout = [''earlier'']\<rparr>"
  have h: "data_level ?s1 = data_level ?s2" by simp
  have nonempty: "[sample_place_full] \<noteq> []" by simp
  note both = export_is_a_function_of_level_and_records
    [OF h, of "\<lambda>v. []" "[sample_place_full]" "''a.csv''" empty_world "''b.csv''" ?w2]
  from both have same_result:
    "fst (save_to_csv (\<lambda>v. []) ?s1 [sample_place_full] ''a.csv'' empty_world)
       = fst (save_to_csv (\<lambda>v. []) ?s2 [sample_place_full] ''b.csv'' ?w2)"
    by (rule conjunct1)
  from both nonempty have same_file:
    "files (snd (save_to_csv (\<lambda>v. []) ?s1 [sample_place_full] ''a.csv'' empty_world)) ''a.csv''
       = files (snd (save_to_csv (\<lambda>v. []) ?s2 [sample_place_full] ''b.csv'' ?w2)) ''b.csv''"
    by blast
  have content:
    "files (snd (save_to_csv (\<lambda>v. []) ?s1 [sample_place_full] ''a.csv'' empty_world)) ''a.csv''
     = Some [map JStr (fieldnames ''basic''),
             [JStr ''abc'', JStr ''Cafe Uno'', JStr ''1 Main St'', JNum 40.7, JNum (- 74),
              JStr ''cafe, food'', JStr ''cafe'', JStr ''https://maps.google.com/?cid=1'']]"
    by (simp add: save_to_csv_def fieldnames_def assign_row_def basic_row_def get_nested_def
        join_value_def get_def dict_to_list_def sample_place_full_def)
  from same_result same_file content show ?thesis by (intro conjI)
qed

end
